theory Spec2Isabelle
  imports Main "HOL-Library.List_Lexorder" "HOL-Library.Product_Lexorder" "HOL-Library.Multiset"
begin

section \<open>Python values\<close>

text \<open>
  A Python \<open>str\<close> is a sequence of Unicode code points: indexing, slicing and \<open>len\<close>
  count code points, and \<open><\<close> compares code point by code point, a proper prefix
  being smaller. The source's literals hold code points above 255, so a string is a
  list of naturals, ordered lexicographically.
\<close>

type_synonym ustr = "nat list"

definition ascii :: "string \<Rightarrow> ustr" where
  "ascii s = map of_char s"

text \<open>
  What \<open>r.json()\<close> yields. Numbers are the integers: a JSON number with a fraction
  or an exponent becomes a Python float, which is left out of the model.
  An object is the \<open>dict\<close> built from it, as an association list with distinct keys.
\<close>

datatype json =
    JNull
  | JBool bool
  | JInt int
  | JStr ustr
  | JArr "json list"
  | JObj "(ustr \<times> json) list"

type_synonym dict = "(ustr \<times> json) list"

definition get :: "dict \<Rightarrow> ustr \<Rightarrow> json" where
  \<comment> \<open>\<open>d.get(k)\<close>: \<open>None\<close> when the key is missing\<close>
  "get d k = (case map_of d k of None \<Rightarrow> JNull | Some v \<Rightarrow> v)"

fun truthy :: "json \<Rightarrow> bool" where
  "truthy JNull = False"
| "truthy (JBool b) = b"
| "truthy (JInt i) = (i \<noteq> 0)"
| "truthy (JStr s) = (s \<noteq> [])"
| "truthy (JArr xs) = (xs \<noteq> [])"
| "truthy (JObj kvs) = (kvs \<noteq> [])"

definition py_or :: "json \<Rightarrow> json \<Rightarrow> json" where
  \<comment> \<open>\<open>a or b\<close>\<close>
  "py_or a b = (if truthy a then a else b)"

section \<open>The upstream client and the outcome of a request\<close>

record get_request =
  url :: ustr
  headers :: "(ustr \<times> ustr) list"
  timeout :: nat

text \<open>
  \<open>requests.get\<close> either raises a \<open>RequestException\<close> (\<open>Raised\<close>, with \<open>str(e)\<close>) or
  returns a response. \<open>http_error_text\<close> is the message of the \<open>HTTPError\<close> that
  \<open>raise_for_status\<close> builds for this response. \<open>json_body\<close> is \<open>r.json()\<close>, taken to have
  the shape the upstream API documents for the path (an object for a user, an array
  of objects for a repository listing); a body that does not decode is not modelled.
\<close>

record 'a response =
  status_code :: nat
  http_error_text :: ustr
  json_body :: 'a

datatype 'a reply = Raised ustr | Responded "'a response"

definition raise_for_status :: "'a response \<Rightarrow> ustr option" where
  \<comment> \<open>\<open>requests\<close> raises for the client errors 400..499 and the server errors 500..599 only\<close>
  "raise_for_status r =
     (if 400 \<le> status_code r \<and> status_code r < 600 then Some (http_error_text r) else None)"

text \<open>
  A handler returns a value (HTTP 200) or raises an \<open>HTTPException\<close> with a status and
  a detail, unless the framework's parameter validation refuses the request before the
  handler runs (HTTP 422).
\<close>

datatype 'a result =
    Ok 'a
  | HTTPException nat ustr
  | RequestValidationError

fun http_status :: "'a result \<Rightarrow> nat" where
  "http_status (Ok _) = 200"
| "http_status (HTTPException c _) = c"
| "http_status RequestValidationError = 422"

definition always :: "'a reply \<Rightarrow> get_request \<Rightarrow> 'a reply" where
  \<comment> \<open>an upstream that answers every request alike\<close>
  "always r rq = r"

definition accept_header :: "(ustr \<times> ustr) list" where
  "accept_header = [(ascii ''Accept'', ascii ''application/vnd.github+json'')]"

definition api_error :: "ustr \<Rightarrow> 'a result" where
  "api_error e = HTTPException 502 (ascii ''GitHub API error: '' @ e)"

section \<open>The profile endpoint\<close>

definition profile_request :: "ustr \<Rightarrow> get_request" where
  "profile_request username =
     \<lparr>url = ascii ''https://api.github.com/users/'' @ username,
      headers = accept_header, timeout = 10\<rparr>"

definition profile :: "dict \<Rightarrow> dict" where
  "profile data =
     [(ascii ''login'', get data (ascii ''login'')),
      (ascii ''name'', py_or (get data (ascii ''name'')) (get data (ascii ''login''))),
      (ascii ''avatar_url'', get data (ascii ''avatar_url'')),
      (ascii ''bio'', get data (ascii ''bio'')),
      (ascii ''location'', get data (ascii ''location'')),
      (ascii ''blog'', get data (ascii ''blog'')),
      (ascii ''html_url'', get data (ascii ''html_url'')),
      (ascii ''followers'', get data (ascii ''followers'')),
      (ascii ''following'', get data (ascii ''following'')),
      (ascii ''public_repos'', get data (ascii ''public_repos'')),
      (ascii ''company'', get data (ascii ''company'')),
      (ascii ''twitter_username'', get data (ascii ''twitter_username''))]"

text \<open>
  The handler returns the requests it sent upstream, in order, and its outcome.
\<close>

definition github_profile ::
  "(get_request \<Rightarrow> dict reply) \<Rightarrow> ustr \<Rightarrow> get_request list \<times> dict result" where
  "github_profile upstream username =
     (let rq = profile_request username in
      ([rq],
       case upstream rq of
         Raised e \<Rightarrow> api_error e
       | Responded r \<Rightarrow>
           if status_code r = 404 then HTTPException 404 (ascii ''GitHub user not found'')
           else (case raise_for_status r of
                   Some e \<Rightarrow> api_error e
                 | None \<Rightarrow> Ok (profile (json_body r)))))"

definition octocat_blank_name :: dict where
  "octocat_blank_name = [(ascii ''login'', JStr (ascii ''octocat'')), (ascii ''name'', JStr [])]"

definition octocat_no_name :: dict where
  "octocat_no_name = [(ascii ''login'', JStr (ascii ''octocat''))]"

definition ok_response :: "'a \<Rightarrow> 'a reply" where
  "ok_response body = Responded \<lparr>status_code = 200, http_error_text = [], json_body = body\<rparr>"

section \<open>The repositories endpoint\<close>

definition repos_request :: "ustr \<Rightarrow> get_request" where
  "repos_request username =
     \<lparr>url = ascii ''https://api.github.com/users/'' @ username
              @ ascii ''/repos?per_page=100&type=public&sort=updated'',
      headers = accept_header, timeout = 15\<rparr>"

text \<open>
  A repository object of the upstream's listing, with the ten members the handler
  reads; \<open>None\<close> is a member that the object does not have. The two members that the sort
  compares have the types the upstream API documents: \<open>stargazers_count\<close> is an integer,
  and \<open>updated_at\<close> is a string or \<open>null\<close> (\<open>None\<close> here is an absent member or a \<open>null\<close> one:
  \<open>repo.get("updated_at")\<close> is \<open>None\<close> for both). Other values of these two members are
  outside the model: Python can fail to order them, and whether the sort then raises
  depends on which pairs it compares. The other members are arbitrary JSON values.
\<close>

record repo_object =
  raw_name :: "json option"
  raw_full_name :: "json option"
  raw_description :: "json option"
  raw_html_url :: "json option"
  raw_homepage :: "json option"
  raw_language :: "json option"
  raw_stargazers_count :: "int option"
  raw_fork :: "json option"
  raw_topics :: "json option"
  raw_updated_at :: "ustr option"

definition member :: "json option \<Rightarrow> json" where
  \<comment> \<open>\<open>repo.get(k)\<close>: \<open>None\<close> when the member is missing\<close>
  "member m = (case m of None \<Rightarrow> JNull | Some v \<Rightarrow> v)"

definition member_default :: "'a option \<Rightarrow> 'a \<Rightarrow> 'a" where
  \<comment> \<open>\<open>repo.get(k, v0)\<close>: the default only when the member is missing\<close>
  "member_default m v0 = (case m of None \<Rightarrow> v0 | Some v \<Rightarrow> v)"

text \<open>
  The dictionary that the comprehension builds for a repository, with its ten keys.
\<close>

record repository_summary =
  name :: json
  full_name :: json
  description :: json
  html_url :: json
  homepage :: json
  language :: json
  stargazers_count :: int
  fork :: json
  topics :: json
  updated_at :: "ustr option"

definition summary :: "repo_object \<Rightarrow> repository_summary" where
  "summary repo =
     \<lparr>name = member (raw_name repo),
      full_name = member (raw_full_name repo),
      description = member (raw_description repo),
      html_url = member (raw_html_url repo),
      homepage = member (raw_homepage repo),
      language = member (raw_language repo),
      stargazers_count = member_default (raw_stargazers_count repo) 0,
      fork = member_default (raw_fork repo) (JBool False),
      topics = member_default (raw_topics repo) (JArr []),
      updated_at = raw_updated_at repo\<rparr>"

definition keep :: "bool \<Rightarrow> repo_object \<Rightarrow> bool" where
  \<comment> \<open>the condition of the comprehension\<close>
  "keep include_forks repo =
     (include_forks \<or> \<not> truthy (member_default (raw_fork repo) (JBool False)))"

definition updated_or_empty :: "repository_summary \<Rightarrow> ustr" where
  \<comment> \<open>\<open>x.get("updated_at") or ""\<close>\<close>
  "updated_or_empty x = (case updated_at x of None \<Rightarrow> [] | Some s \<Rightarrow> if s \<noteq> [] then s else [])"

definition repo_key :: "repository_summary \<Rightarrow> int \<times> ustr" where
  \<comment> \<open>the \<open>key\<close> function of the sort; tuples are ordered lexicographically\<close>
  "repo_key x = (stargazers_count x, updated_or_empty x)"

text \<open>
  \<open>list.sort(key=..., reverse=True)\<close> computes the key of every element, reverses the
  list, sorts it stably in ascending key order and reverses it again, so that elements
  with equal keys keep their order. Two keys that are an integer paired with a string
  are always ordered, so the sort does not raise.
\<close>

definition sort_reverse :: "repository_summary list \<Rightarrow> repository_summary list" where
  "sort_reverse xs = rev (sort_key repo_key (rev xs))"

definition slice_to :: "'a list \<Rightarrow> int \<Rightarrow> 'a list" where
  \<comment> \<open>\<open>xs[:n]\<close>: a negative bound counts from the end\<close>
  "slice_to xs n = (if 0 \<le> n then take (nat n) xs else take (length xs - nat (- n)) xs)"

definition github_repos ::
  "(get_request \<Rightarrow> repo_object list reply) \<Rightarrow> ustr \<Rightarrow> int \<Rightarrow> bool
     \<Rightarrow> get_request list \<times> repository_summary list result" where
  "github_repos upstream username limit include_forks =
     (let rq = repos_request username in
      ([rq],
       case upstream rq of
         Raised e \<Rightarrow> api_error e
       | Responded r \<Rightarrow>
           (case raise_for_status r of
              Some e \<Rightarrow> api_error e
            | None \<Rightarrow>
                (let filtered = sort_reverse
                                  (map summary (filter (keep include_forks) (json_body r)))
                 in Ok (slice_to filtered limit)))))"

text \<open>
  The framework binds the query string to the handler's parameters before it calls the
  handler: \<open>username\<close> is required, \<open>limit\<close> is \<open>Query(6, ge=1, le=50)\<close> and
  \<open>include_forks\<close> is \<open>Query(False)\<close>. A parameter that fails its declaration makes the
  framework answer 422 without calling the handler. The query holds the parameters as
  parsed, \<open>None\<close> for one that the caller left out.
\<close>

record repos_query =
  q_username :: "ustr option"
  q_limit :: "int option"
  q_include_forks :: "bool option"

definition bind_limit :: "int option \<Rightarrow> int option" where
  \<comment> \<open>the bound value, \<open>None\<close> when validation fails\<close>
  "bind_limit l =
     (case l of None \<Rightarrow> Some 6 | Some n \<Rightarrow> if 1 \<le> n \<and> n \<le> 50 then Some n else None)"

definition bind_include_forks :: "bool option \<Rightarrow> bool" where
  "bind_include_forks b = (case b of None \<Rightarrow> False | Some v \<Rightarrow> v)"

definition repos_endpoint ::
  "(get_request \<Rightarrow> repo_object list reply) \<Rightarrow> repos_query
     \<Rightarrow> get_request list \<times> repository_summary list result" where
  "repos_endpoint upstream q =
     (case q_username q of
        None \<Rightarrow> ([], RequestValidationError)
      | Some username \<Rightarrow>
          (case bind_limit (q_limit q) of
             None \<Rightarrow> ([], RequestValidationError)
           | Some limit \<Rightarrow>
               github_repos upstream username limit (bind_include_forks (q_include_forks q))))"



definition repo :: "int \<Rightarrow> bool \<Rightarrow> string \<Rightarrow> repo_object" where
  \<comment> \<open>a repository object with the three members the endpoint looks at\<close>
  "repo stars is_fork updated =
     \<lparr>raw_name = None, raw_full_name = None, raw_description = None, raw_html_url = None,
      raw_homepage = None, raw_language = None,
      raw_stargazers_count = Some stars,
      raw_fork = Some (JBool is_fork),
      raw_topics = None,
      raw_updated_at = Some (ascii updated)\<rparr>"

definition three_repos :: "repo_object list" where
  "three_repos =
     [repo 5 False ''2023-01-01'', repo 5 True ''2023-06-01'', repo 2 False ''2024-01-01'']"


section \<open>The diagnostics endpoint\<close>

text \<open>
  The exceptions of the \<open>Exception\<close> hierarchy that probing the store can raise, with
  \<open>str(e)\<close>: an \<open>ImportError\<close> (or a subclass of it), or any other. Exceptions outside
  that hierarchy (\<open>KeyboardInterrupt\<close>, \<open>SystemExit\<close>) are not modelled.
\<close>

datatype exn = ImportError ustr | OtherException ustr

fun str :: "exn \<Rightarrow> ustr" where
  "str (ImportError m) = m"
| "str (OtherException m) = m"

text \<open>
  A store handle: its \<open>name\<close> attribute when it has one, and what calling
  \<open>list_collection_names()\<close> does. \<open>from database import db\<close> raises, or binds \<open>db\<close> to
  \<open>None\<close> or to a handle. The environment is the outcome of that import and the
  process's environment variables.
\<close>

record db_handle =
  db_name :: "ustr option"
  list_collection_names :: "exn + ustr list"

datatype import_outcome = ImportRaises exn | Imported "db_handle option"

record environment =
  database_import :: import_outcome
  getenv :: "ustr \<Rightarrow> ustr option"

record report =
  backend :: ustr
  database :: ustr
  database_url :: "ustr option"
  database_name :: "ustr option"
  connection_status :: ustr
  collections :: "ustr list"

definition check_mark :: ustr where
  "check_mark = [9989]"

definition cross_mark :: ustr where
  "cross_mark = [10060]"

definition warning_sign :: ustr where
  "warning_sign = [9888, 65039]"

definition initial_report :: report where
  "initial_report =
     \<lparr>backend = check_mark @ ascii '' Running'',
      database = cross_mark @ ascii '' Not Available'',
      database_url = None,
      database_name = None,
      connection_status = ascii ''Not Connected'',
      collections = []\<rparr>"

definition excerpt :: "exn \<Rightarrow> ustr" where
  \<comment> \<open>\<open>str(e)[:50]\<close>\<close>
  "excerpt e = take 50 (str e)"

definition enumerate_collections :: "db_handle \<Rightarrow> report \<Rightarrow> report" where
  \<comment> \<open>the inner \<open>try\<close>, whose \<open>except Exception\<close> takes every exception of the model\<close>
  "enumerate_collections db response =
     (case list_collection_names db of
        Inr cs \<Rightarrow>
          response\<lparr>collections := take 10 cs,
                   database := check_mark @ ascii '' Connected & Working''\<rparr>
      | Inl e \<Rightarrow>
          response\<lparr>database := warning_sign @ ascii ''  Connected but Error: '' @ excerpt e\<rparr>)"

definition probe :: "import_outcome \<Rightarrow> report \<Rightarrow> report \<times> exn option" where
  \<comment> \<open>the body of the outer \<open>try\<close>: the response as the body leaves it, and the exception
      that leaves the body, if any\<close>
  "probe imp response =
     (case imp of
        ImportRaises e \<Rightarrow> (response, Some e)
      | Imported None \<Rightarrow>
          (response\<lparr>database := warning_sign @ ascii ''  Available but not initialized''\<rparr>, None)
      | Imported (Some db) \<Rightarrow>
          (enumerate_collections db
             (response\<lparr>database := check_mark @ ascii '' Available'',
                       database_url := Some (check_mark @ ascii '' Configured''),
                       database_name :=
                         Some (case db_name db of
                                 Some n \<Rightarrow> n
                               | None \<Rightarrow> check_mark @ ascii '' Connected''),
                       connection_status := ascii ''Connected''\<rparr>),
           None))"

fun except_clauses :: "exn \<Rightarrow> report \<Rightarrow> report" where
  "except_clauses (ImportError m) response =
     response\<lparr>database :=
       cross_mark @ ascii '' Database module not found (run enable-database first)''\<rparr>"
| "except_clauses e response =
     response\<lparr>database := cross_mark @ ascii '' Error: '' @ excerpt e\<rparr>"

definition env_flag :: "ustr option \<Rightarrow> ustr" where
  \<comment> \<open>\<open>"... Set" if os.getenv(v) else "... Not Set"\<close>: an empty value is falsy\<close>
  "env_flag v =
     (case v of
        None \<Rightarrow> cross_mark @ ascii '' Not Set''
      | Some s \<Rightarrow> if s \<noteq> [] then check_mark @ ascii '' Set'' else cross_mark @ ascii '' Not Set'')"

definition check_environment :: "(ustr \<Rightarrow> ustr option) \<Rightarrow> report \<Rightarrow> report" where
  "check_environment env response =
     response\<lparr>database_url := Some (env_flag (env (ascii ''DATABASE_URL''))),
              database_name := Some (env_flag (env (ascii ''DATABASE_NAME'')))\<rparr>"

definition test_database :: "environment \<Rightarrow> report result" where
  "test_database e =
     (case probe (database_import e) initial_report of
        (response, None) \<Rightarrow> Ok (check_environment (getenv e) response)
      | (response, Some ex) \<Rightarrow> Ok (check_environment (getenv e) (except_clauses ex response)))"

section \<open>Example inputs\<close>

definition multiple_choices :: "'a \<Rightarrow> 'a reply" where
  "multiple_choices body = Responded \<lparr>status_code = 300, http_error_text = [], json_body = body\<rparr>"

definition not_found :: "'a \<Rightarrow> 'a reply" where
  "not_found body =
     Responded \<lparr>status_code = 404, http_error_text = ascii ''404 Client Error: Not Found'',
                json_body = body\<rparr>"

definition query :: "int option \<Rightarrow> bool option \<Rightarrow> repos_query" where
  "query l f = \<lparr>q_username = Some (ascii ''octocat''), q_limit = l, q_include_forks = f\<rparr>"

definition no_variables :: "ustr \<Rightarrow> ustr option" where
  "no_variables v = None"


definition unreachable_db :: db_handle where
  \<comment> \<open>enumeration raises, with a message of 60 characters\<close>
  "unreachable_db =
     \<lparr>db_name = None, list_collection_names = Inl (OtherException (replicate 60 120))\<rparr>"

definition failing_import :: environment where
  \<comment> \<open>importing the store module raises, with a message of 60 characters\<close>
  "failing_import =
     \<lparr>database_import = ImportRaises (OtherException (replicate 60 120)),
      getenv = no_variables\<rparr>"


definition failing_enumeration :: environment where
  "failing_enumeration =
     \<lparr>database_import = Imported (Some unreachable_db), getenv = no_variables\<rparr>"

section \<open>Facts about the values\<close>

lemma ascii_inj: "(ascii s = ascii t) = (s = t)"
  unfolding ascii_def by (simp add: inj_map_eq_map inj_def)

lemma map_of_profile_name:
  "map_of (profile data) (ascii ''name'')
     = Some (py_or (get data (ascii ''name'')) (get data (ascii ''login'')))"
  unfolding profile_def by (simp add: ascii_inj)

lemma get_profile_name:
  "get (profile data) (ascii ''name'')
     = py_or (get data (ascii ''name'')) (get data (ascii ''login''))"
  by (simp add: get_def map_of_profile_name)

lemma github_profile_Ok:
  assumes "snd (github_profile upstream username) = Ok p"
  shows "\<exists>r. upstream (profile_request username) = Responded r \<and> p = profile (json_body r)"
  using assms unfolding github_profile_def api_error_def
  by (auto simp: Let_def split: reply.splits if_splits option.splits)

section \<open>The profile's name\<close>

lemma profile_name_cases:
  "get (profile data) (ascii ''name'')
     = (case map_of data (ascii ''name'') of
          None \<Rightarrow> get data (ascii ''login'')
        | Some v \<Rightarrow> if truthy v then v else get data (ascii ''login''))"
  unfolding get_profile_name py_or_def
  by (cases "map_of data (ascii ''name'')") (simp_all add: get_def)

text \<open>
  Claim C3, as the code has it: on a successful lookup the returned \<open>name\<close> is the
  upstream \<open>name\<close> when that member is present and truthy, and the upstream \<open>login\<close>
  otherwise; a user object with no \<open>name\<close> and \<open>login\<close> "octocat" yields "octocat".
\<close>

theorem profile_name_fallback:
  assumes "snd (github_profile upstream username) = Ok p"
    and "upstream (profile_request username) = Responded r"
  shows "get p (ascii ''name'')
           = (case map_of (json_body r) (ascii ''name'') of
                None \<Rightarrow> get (json_body r) (ascii ''login'')
              | Some v \<Rightarrow> if truthy v then v else get (json_body r) (ascii ''login''))"
proof -
  from github_profile_Ok [OF assms(1)] assms(2) have "p = profile (json_body r)"
    by auto
  then show ?thesis
    by (simp only: profile_name_cases)
qed

theorem profile_name_fallback_witness:
  "snd (github_profile (always (ok_response octocat_no_name)) (ascii ''octocat''))
     = Ok (profile octocat_no_name)
   \<and> map_of octocat_no_name (ascii ''name'') = None
   \<and> get (profile octocat_no_name) (ascii ''name'') = JStr (ascii ''octocat'')"
proof -
  have h1: "snd (github_profile (always (ok_response octocat_no_name)) (ascii ''octocat''))
              = Ok (profile octocat_no_name)"
    by code_simp
  have h2: "always (ok_response octocat_no_name) (profile_request (ascii ''octocat''))
              = Responded \<lparr>status_code = 200, http_error_text = [], json_body = octocat_no_name\<rparr>"
    by (simp add: always_def ok_response_def)
  have h3: "map_of octocat_no_name (ascii ''name'') = None"
    by code_simp
  have h4: "get octocat_no_name (ascii ''login'') = JStr (ascii ''octocat'')"
    by code_simp
  from profile_name_fallback [OF h1 h2] h1 h3 h4 show ?thesis by simp
qed

text \<open>
  The claim as written takes the upstream \<open>name\<close> whenever the member is present. A
  user object whose \<open>name\<close> is present and empty is answered with the login instead.
\<close>

theorem profile_name_present_counterexample:
  "snd (github_profile (always (ok_response octocat_blank_name)) (ascii ''octocat''))
     = Ok (profile octocat_blank_name)
   \<and> map_of octocat_blank_name (ascii ''name'') = Some (JStr [])
   \<and> get (profile octocat_blank_name) (ascii ''name'') = JStr (ascii ''octocat'')
   \<and> JStr (ascii ''octocat'') \<noteq> JStr []"
  by code_simp

text \<open>
  Claim C9: when the upstream \<open>name\<close> is present but falsy (the empty string, \<open>null\<close>),
  the returned \<open>name\<close> is the upstream \<open>login\<close>.
\<close>

theorem profile_name_falsy:
  assumes "snd (github_profile upstream username) = Ok p"
    and "upstream (profile_request username) = Responded r"
    and "map_of (json_body r) (ascii ''name'') = Some v"
    and "\<not> truthy v"
  shows "get p (ascii ''name'') = get (json_body r) (ascii ''login'')"
proof -
  from github_profile_Ok [OF assms(1)] assms(2) have "p = profile (json_body r)"
    by auto
  with assms(3,4) show ?thesis
    by (simp add: profile_name_cases)
qed

theorem profile_name_falsy_witness:
  "snd (github_profile (always (ok_response octocat_blank_name)) (ascii ''octocat''))
     = Ok (profile octocat_blank_name)
   \<and> map_of octocat_blank_name (ascii ''name'') = Some (JStr [])
   \<and> \<not> truthy (JStr [])
   \<and> get (profile octocat_blank_name) (ascii ''name'') = JStr (ascii ''octocat'')"
proof -
  have h1: "snd (github_profile (always (ok_response octocat_blank_name)) (ascii ''octocat''))
              = Ok (profile octocat_blank_name)"
    by code_simp
  have h2: "always (ok_response octocat_blank_name) (profile_request (ascii ''octocat''))
              = Responded \<lparr>status_code = 200, http_error_text = [], json_body = octocat_blank_name\<rparr>"
    by (simp add: always_def ok_response_def)
  have h3: "map_of (json_body \<lparr>status_code = 200, http_error_text = [], json_body = octocat_blank_name\<rparr>)
              (ascii ''name'') = Some (JStr [])"
    by code_simp
  have h4: "\<not> truthy (JStr [])"
    by simp
  have h5: "get octocat_blank_name (ascii ''login'') = JStr (ascii ''octocat'')"
    by code_simp
  from profile_name_falsy [OF h1 h2 h3 h4] h1 h3 h4 h5 show ?thesis by simp
qed

section \<open>Failures of the profile lookup\<close>




section \<open>Sorting, filtering and truncating the repositories\<close>







lemma slice_to_sorted_wrt: "sorted_wrt P xs \<Longrightarrow> sorted_wrt P (slice_to xs n)"
  by (simp add: slice_to_def sorted_wrt_take)

lemma slice_to_subset: "set (slice_to xs n) \<subseteq> set xs"
  by (auto simp: slice_to_def dest: in_set_takeD)












section \<open>Failures of the repository listing, and the limit\<close>

lemma github_repos_not_404:
  "http_status (snd (github_repos upstream username limit include_forks)) \<noteq> 404"
  unfolding github_repos_def api_error_def
  by (simp add: Let_def split: reply.splits option.splits)

text \<open>
  Claim C6, as the code has it: a transport failure, or any upstream status from 400 to
  599, 404 included, is answered with 502 and the upstream error text; the repositories
  endpoint never answers 404.
\<close>

theorem github_repos_failures:
  "(upstream (repos_request username) = Raised e
      \<longrightarrow> snd (github_repos upstream username limit include_forks)
            = HTTPException 502 (ascii ''GitHub API error: '' @ e))
 \<and> (upstream (repos_request username) = Responded r
        \<and> 400 \<le> status_code r \<and> status_code r < 600
      \<longrightarrow> snd (github_repos upstream username limit include_forks)
            = HTTPException 502 (ascii ''GitHub API error: '' @ http_error_text r))
 \<and> http_status (snd (github_repos upstream username limit include_forks)) \<noteq> 404
 \<and> http_status (snd (repos_endpoint upstream q)) \<noteq> 404"
proof -
  have "http_status (snd (repos_endpoint upstream q)) \<noteq> 404"
    unfolding repos_endpoint_def
    by (simp add: github_repos_not_404 split: option.splits)
  moreover have "upstream (repos_request username) = Raised e
      \<longrightarrow> snd (github_repos upstream username limit include_forks)
            = HTTPException 502 (ascii ''GitHub API error: '' @ e)"
    unfolding github_repos_def api_error_def by (simp add: Let_def)
  moreover have "upstream (repos_request username) = Responded r
        \<and> 400 \<le> status_code r \<and> status_code r < 600
      \<longrightarrow> snd (github_repos upstream username limit include_forks)
            = HTTPException 502 (ascii ''GitHub API error: '' @ http_error_text r)"
    unfolding github_repos_def api_error_def raise_for_status_def by (simp add: Let_def)
  ultimately show ?thesis
    using github_repos_not_404 by blast
qed

theorem github_repos_failures_witness:
  "snd (github_repos (always (not_found [])) (ascii ''ghost'') 6 False)
     = HTTPException 502 (ascii ''GitHub API error: 404 Client Error: Not Found'')"
proof -
  have h1: "always (not_found []) (repos_request (ascii ''ghost''))
              = Responded \<lparr>status_code = 404,
                   http_error_text = ascii ''404 Client Error: Not Found'',
                   json_body = ([] :: repo_object list)\<rparr>"
    by (simp add: always_def not_found_def)
  have h3: "ascii ''GitHub API error: '' @ ascii ''404 Client Error: Not Found''
              = ascii ''GitHub API error: 404 Client Error: Not Found''"
    by (simp add: ascii_def)
  from github_repos_failures [of "always (not_found [])" "ascii ''ghost''" _ 6 False
         "\<lparr>status_code = 404, http_error_text = ascii ''404 Client Error: Not Found'',
           json_body = []\<rparr>"] h1 h3
  show ?thesis by simp
qed

text \<open>
  The claim as written sends every status outside 200..299 to 502. A status of 300 is
  not raised by \<open>raise_for_status\<close>, and the listing is returned.
\<close>

theorem github_repos_status_300_counterexample:
  "snd (github_repos (always (multiple_choices three_repos)) (ascii ''octocat'') 6 False)
     = Ok [summary (repo 5 False ''2023-01-01''), summary (repo 2 False ''2024-01-01'')]
   \<and> http_status (snd (github_repos (always (multiple_choices three_repos))
                         (ascii ''octocat'') 6 False)) = 200"
  by code_simp

text \<open>
  Claim C8: a limit outside 1..50 is refused with a validation error (HTTP 422) and no
  request is sent upstream; a limit within 1..50 reaches the handler unchanged, and an
  omitted one reaches it as 6. The handler itself always sends one request.
\<close>

theorem repos_limit_validation:
  "(q_limit q = Some n \<and> (n < 1 \<or> 50 < n)
      \<longrightarrow> repos_endpoint upstream q = ([], RequestValidationError))
 \<and> (q_username q = Some username \<and> q_limit q = Some n \<and> 1 \<le> n \<and> n \<le> 50
      \<longrightarrow> repos_endpoint upstream q
            = github_repos upstream username n (bind_include_forks (q_include_forks q)))
 \<and> (q_username q = Some username \<and> q_limit q = None
      \<longrightarrow> repos_endpoint upstream q
            = github_repos upstream username 6 (bind_include_forks (q_include_forks q)))
 \<and> fst (github_repos upstream username n include_forks) = [repos_request username]
 \<and> http_status (RequestValidationError :: repository_summary list result) = 422"
  unfolding repos_endpoint_def bind_limit_def github_repos_def
  by (auto simp: Let_def split: option.splits)

theorem repos_limit_validation_witness:
  "repos_endpoint (always (ok_response three_repos)) (query (Some 51) None)
     = ([], RequestValidationError)
   \<and> repos_endpoint (always (ok_response three_repos)) (query (Some 0) None)
     = ([], RequestValidationError)
   \<and> repos_endpoint (always (ok_response three_repos)) (query (Some 50) None)
     = github_repos (always (ok_response three_repos)) (ascii ''octocat'') 50 False
   \<and> repos_endpoint (always (ok_response three_repos)) (query None None)
     = github_repos (always (ok_response three_repos)) (ascii ''octocat'') 6 False"
proof -
  let ?up = "always (ok_response three_repos)"
  from repos_limit_validation [of "query (Some 51) None" 51 ?up]
  have a: "repos_endpoint ?up (query (Some 51) None) = ([], RequestValidationError)"
    by (simp add: query_def)
  from repos_limit_validation [of "query (Some 0) None" 0 ?up]
  have b: "repos_endpoint ?up (query (Some 0) None) = ([], RequestValidationError)"
    by (simp add: query_def)
  from repos_limit_validation [of "query (Some 50) None" 50 ?up "ascii ''octocat''"]
  have c: "repos_endpoint ?up (query (Some 50) None)
             = github_repos ?up (ascii ''octocat'') 50 False"
    by (simp add: query_def bind_include_forks_def)
  from repos_limit_validation [of "query None None" _ ?up "ascii ''octocat''"]
  have d: "repos_endpoint ?up (query None None)
             = github_repos ?up (ascii ''octocat'') 6 False"
    by (simp add: query_def bind_include_forks_def)
  from a b c d show ?thesis by simp
qed

section \<open>The diagnostics report\<close>

lemma length_excerpt: "length (excerpt ex) \<le> 50"
  by (simp add: excerpt_def)

lemma test_database_Ok:
  "test_database e
     = Ok (check_environment (getenv e)
            (case probe (database_import e) initial_report of
               (response, None) \<Rightarrow> response
             | (response, Some ex) \<Rightarrow> except_clauses ex response))"
  unfolding test_database_def by (simp split: prod.splits option.splits)

lemma database_check_environment [simp]:
  "database (check_environment env response) = database response"
  by (simp add: check_environment_def)

text \<open>
  Claim C7: whatever the import of the store module does, whether the handle is
  initialised, and whether enumerating the collections succeeds, the diagnostics
  endpoint returns a report with HTTP 200. An absent module is reported as such, and any
  other exception raised while probing is reported through an excerpt of at most 50
  characters of its message.
\<close>

theorem test_database_never_raises:
  "\<exists>rep. test_database e = Ok rep
     \<and> http_status (test_database e) = 200
     \<and> (\<forall>m. database_import e = ImportRaises (ImportError m)
            \<longrightarrow> database rep
                  = cross_mark @ ascii '' Database module not found (run enable-database first)'')
     \<and> (\<forall>m. database_import e = ImportRaises (OtherException m)
            \<longrightarrow> database rep = cross_mark @ ascii '' Error: '' @ take 50 m)
     \<and> (\<forall>db ex. database_import e = Imported (Some db) \<and> list_collection_names db = Inl ex
            \<longrightarrow> database rep
                  = warning_sign @ ascii ''  Connected but Error: '' @ take 50 (str ex))
     \<and> (\<forall>ex. length (excerpt ex) \<le> 50)"
proof (intro exI conjI allI impI)
  show "test_database e = Ok (check_environment (getenv e)
            (case probe (database_import e) initial_report of
               (response, None) \<Rightarrow> response
             | (response, Some ex) \<Rightarrow> except_clauses ex response))"
    by (rule test_database_Ok)
  show "http_status (test_database e) = 200"
    by (simp add: test_database_Ok)
  show "length (excerpt ex) \<le> 50" for ex
    by (rule length_excerpt)
qed (simp_all add: probe_def excerpt_def enumerate_collections_def)

theorem test_database_never_raises_witness:
  "(\<exists>rep. test_database failing_import = Ok rep
      \<and> database rep = cross_mark @ ascii '' Error: '' @ replicate 50 120)
 \<and> (\<exists>rep. test_database failing_enumeration = Ok rep
      \<and> database rep
          = warning_sign @ ascii ''  Connected but Error: '' @ replicate 50 120)"
proof -
  from test_database_never_raises [of failing_import] obtain rep where
    ok: "test_database failing_import = Ok rep"
    and e: "\<forall>m. database_import failing_import = ImportRaises (OtherException m)
            \<longrightarrow> database rep = cross_mark @ ascii '' Error: '' @ take 50 m"
    by blast
  have "database_import failing_import = ImportRaises (OtherException (replicate 60 120))"
    by (simp add: failing_import_def)
  with e have "database rep = cross_mark @ ascii '' Error: '' @ take 50 (replicate 60 120)"
    by blast
  then have "database rep = cross_mark @ ascii '' Error: '' @ replicate 50 120"
    by simp
  with ok have a: "\<exists>rep. test_database failing_import = Ok rep
      \<and> database rep = cross_mark @ ascii '' Error: '' @ replicate 50 120"
    by blast
  from test_database_never_raises [of failing_enumeration] obtain rep' where
    ok': "test_database failing_enumeration = Ok rep'"
    and e': "\<forall>db ex. database_import failing_enumeration = Imported (Some db)
                 \<and> list_collection_names db = Inl ex
            \<longrightarrow> database rep'
                  = warning_sign @ ascii ''  Connected but Error: '' @ take 50 (str ex)"
    by blast
  have "database_import failing_enumeration = Imported (Some unreachable_db)
          \<and> list_collection_names unreachable_db = Inl (OtherException (replicate 60 120))"
    by (simp add: failing_enumeration_def unreachable_db_def)
  with e' have "database rep' = warning_sign @ ascii ''  Connected but Error: ''
                  @ take 50 (str (OtherException (replicate 60 120)))"
    by blast
  then have "database rep'
               = warning_sign @ ascii ''  Connected but Error: '' @ replicate 50 120"
    by simp
  with ok' have b: "\<exists>rep. test_database failing_enumeration = Ok rep
      \<and> database rep
          = warning_sign @ ascii ''  Connected but Error: '' @ replicate 50 120"
    by blast
  from a b show ?thesis by blast
qed




end
